theory Spec2Isabelle
  imports Complex_Main "HOL-Library.Multiset"
begin

section \<open>The viewport data the handlers of pdt_view.py read and write\<close>

text \<open>
  Numbers are reals: a float is the real it denotes, and the degree-to-radian conversion
  \<open>x * pi / 180\<close> is the exact product and quotient. A \<open>mathutils.Quaternion\<close> is its
  four components (w, x, y, z); the 4x4 view matrix is its four rows.
\<close>

type_synonym quaternion = "real \<times> real \<times> real \<times> real"

type_synonym matrix4 = "quaternion \<times> quaternion \<times> quaternion \<times> quaternion"

text \<open>\<open>RegionView3D\<close>: the three attributes the module assigns.\<close>

record region3d =
  view_rotation :: quaternion
  view_matrix :: matrix4
  view_distance :: real

text \<open>
  An area of the screen. The host keeps an area's active space at the head of its list of
  spaces, so \<open>area.spaces.active\<close> and \<open>area.spaces[0]\<close> are the same space; the record
  keeps that space's \<open>region_3d\<close>, which may be \<open>None\<close> (the reset handler tests for it).
\<close>

record area =
  atype :: string
  region_3d :: "region3d option"

text \<open>\<open>scene.pdt_pg\<close>: the two inputs the handlers read.\<close>

record pdt_pg =
  rotation_coords :: "real \<times> real \<times> real"
  vrotangle :: real

text \<open>
  A call of a host operator, \<open>bpy.ops.view3d.view_orbit(angle, type)\<close> or
  \<open>bpy.ops.view3d.view_roll(angle, type)\<close>. What the host operator then does to the
  view belongs to the host; a handler's own effect is the call, which is appended
  to \<open>ops\<close>.
\<close>

datatype host_call = view_orbit real string | view_roll real string

text \<open>
  The part of \<open>bpy.context\<close> the module touches: the scene's property group, the areas of
  the current screen, and the host operators called so far. The areas are objects shared
  with the host: a handler that assigns through \<open>areas[0]\<close> changes the area of
  \<open>screen.areas\<close> it refers to, so references into the area list are indices.
\<close>

record bcontext =
  scene_pdt_pg :: pdt_pg
  screen_areas :: "area list"
  ops :: "host_call list"

datatype error = AttributeError

text \<open>
  The two operations of the host's \<open>mathutils.Quaternion\<close> that the reset handler uses:
  \<open>q * k\<close> and \<open>q == Quaternion(v)\<close>. The host computes them in single precision (the
  product is rounded, the comparison allows a difference in the last place) and their
  code is no part of this module, so they are parameters of the handler: what is proved
  below holds for every product and every comparison.
\<close>

record mathutils =
  quat_mul :: "quaternion \<Rightarrow> real \<Rightarrow> quaternion"
  quat_eq :: "quaternion \<Rightarrow> quaternion \<Rightarrow> bool"

type_synonym status = "string set"

definition FINISHED :: status where
  "FINISHED = {''FINISHED''}"

section \<open>The handlers\<close>

text \<open>
  \<open>[a for a in context.screen.areas if a.type == "VIEW_3D"]\<close>, as the list of the
  positions of those areas in \<open>screen.areas\<close>.
\<close>

definition view3d_areas :: "bcontext \<Rightarrow> nat list" where
  "view3d_areas c =
     filter (\<lambda>i. atype (screen_areas c ! i) = ''VIEW_3D'') [0..<length (screen_areas c)]"

text \<open>
  \<open>areas[0].spaces.active.region_3d.view_rotation = q\<close>, for a reference \<open>i\<close> into
  \<open>screen.areas\<close>: an attribute assignment on \<open>None\<close> raises AttributeError and
  changes nothing.
\<close>

definition set_view_rotation :: "nat \<Rightarrow> quaternion \<Rightarrow> bcontext \<Rightarrow> (error + status) \<times> bcontext" where
  "set_view_rotation i q c =
     (case region_3d (screen_areas c ! i) of
        None \<Rightarrow> (Inl AttributeError, c)
      | Some rv3d \<Rightarrow>
          (Inr FINISHED,
           c\<lparr>screen_areas :=
               (screen_areas c)[i := (screen_areas c ! i)\<lparr>region_3d := Some (rv3d\<lparr>view_rotation := q\<rparr>)\<rparr>]\<rparr>))"

text \<open>
  \<open>PDT_OT_ViewRot.execute\<close>. \<open>euler_to_quaternion\<close> is imported from pdt_functions,
  which is not part of this file: it is a parameter.
\<close>

definition PDT_OT_ViewRot_execute ::
  "(real \<Rightarrow> real \<Rightarrow> real \<Rightarrow> quaternion) \<Rightarrow> bcontext \<Rightarrow> (error + status) \<times> bcontext" where
  "PDT_OT_ViewRot_execute euler_to_quaternion c =
     (let pg = scene_pdt_pg c;
          areas = view3d_areas c
      in if length areas > 0 then
           (case rotation_coords pg of (x, y, z) \<Rightarrow>
              let roll_value = euler_to_quaternion (x * pi / 180) (y * pi / 180) (z * pi / 180)
              in set_view_rotation (areas ! 0) roll_value c)
         else (Inr FINISHED, c))"

definition PDT_OT_vRotL_execute :: "bcontext \<Rightarrow> (error + status) \<times> bcontext" where
  "PDT_OT_vRotL_execute c =
     (let pg = scene_pdt_pg c;
          areas = view3d_areas c
      in if length areas > 0 then
           (Inr FINISHED, c\<lparr>ops := ops c @ [view_orbit (vrotangle pg * pi / 180) ''ORBITLEFT'']\<rparr>)
         else (Inr FINISHED, c))"

definition PDT_OT_vRotR_execute :: "bcontext \<Rightarrow> (error + status) \<times> bcontext" where
  "PDT_OT_vRotR_execute c =
     (let pg = scene_pdt_pg c;
          areas = view3d_areas c
      in if length areas > 0 then
           (Inr FINISHED, c\<lparr>ops := ops c @ [view_orbit (vrotangle pg * pi / 180) ''ORBITRIGHT'']\<rparr>)
         else (Inr FINISHED, c))"

definition PDT_OT_vRotU_execute :: "bcontext \<Rightarrow> (error + status) \<times> bcontext" where
  "PDT_OT_vRotU_execute c =
     (let pg = scene_pdt_pg c;
          areas = view3d_areas c
      in if length areas > 0 then
           (Inr FINISHED, c\<lparr>ops := ops c @ [view_orbit (vrotangle pg * pi / 180) ''ORBITUP'']\<rparr>)
         else (Inr FINISHED, c))"

definition PDT_OT_vRotD_execute :: "bcontext \<Rightarrow> (error + status) \<times> bcontext" where
  "PDT_OT_vRotD_execute c =
     (let pg = scene_pdt_pg c;
          areas = view3d_areas c
      in if length areas > 0 then
           (Inr FINISHED, c\<lparr>ops := ops c @ [view_orbit (vrotangle pg * pi / 180) ''ORBITDOWN'']\<rparr>)
         else (Inr FINISHED, c))"

definition PDT_OT_vRoll_execute :: "bcontext \<Rightarrow> (error + status) \<times> bcontext" where
  "PDT_OT_vRoll_execute c =
     (let pg = scene_pdt_pg c;
          areas = view3d_areas c
      in if length areas > 0 then
           (Inr FINISHED, c\<lparr>ops := ops c @ [view_roll (vrotangle pg * pi / 180) ''ANGLE'']\<rparr>)
         else (Inr FINISHED, c))"

definition PDT_OT_viso_execute :: "bcontext \<Rightarrow> (error + status) \<times> bcontext" where
  "PDT_OT_viso_execute c =
     (let areas = view3d_areas c
      in if length areas > 0 then
           set_view_rotation (areas ! 0) (0.8205, 0.4247, -0.1759, -0.3399) c
         else (Inr FINISHED, c))"

subsection \<open>Reset 3D View\<close>

definition default_distance :: real where
  "default_distance = 18"

definition default_view_matrix :: matrix4 where
  "default_view_matrix =
     ((0.41, -0.4017, 0.8188, 0.0),
      (0.912, 0.1936, -0.3617, 0.0),
      (-0.0133, 0.8959, 0.4458, 0.0),
      (0.0, 0.0, -14.9892, 1.0))"

text \<open>The lookup table; \<open>-0.0000\<close> is the real 0.\<close>

definition vlist :: "(quaternion \<times> string) list" where
  "vlist =
     [((10000000.0000, - 0.0000, - 0.0000, - 0.0000), ''TOP''),
      ((7071067.5000, 7071067.5000, - 0.0000, - 0.0000), ''FRONT''),
      ((5000000.0000, 5000000.0000, 5000000.0000, 5000000.0000), ''RIGHT''),
      ((0.0000, 10000000.0000, - 0.0000, - 0.0000), ''BOTTOM''),
      ((0.0000, - 0.0000, 7071067.5000, 7071067.5000), ''BACK''),
      ((5000000.0000, 5000000.0000, - 5000000.0000, - 5000000.0000), ''LEFT'')]"

text \<open>
  \<open>for v, vm in vlist: if view_rot == Quaternion(v): view_mode = vm\<close>, with the host's
  comparison: the loop runs through the whole table, so a later match overwrites an
  earlier one.
\<close>

fun match_vlist ::
  "mathutils \<Rightarrow> quaternion \<Rightarrow> (quaternion \<times> string) list \<Rightarrow> string \<Rightarrow> string" where
  "match_vlist h view_rot [] view_mode = view_mode"
| "match_vlist h view_rot ((v, vm) # rest) view_mode =
     match_vlist h view_rot rest (if quat_eq h view_rot v then vm else view_mode)"

text \<open>
  The body of \<open>if rv3d is not None\<close>, for the table \<open>vl\<close>: it takes the value of
  \<open>view_mode\<close> on entry and returns its value on exit with the region as assigned.
  \<open>view_rot\<close> is the host's product \<open>rv3d.view_rotation * 10000000\<close>. The calls of
  \<open>debug\<close> only log and are left out.
\<close>

definition reset_rv3d ::
  "mathutils \<Rightarrow> (quaternion \<times> string) list \<Rightarrow> string \<Rightarrow> region3d \<Rightarrow> string \<times> region3d" where
  "reset_rv3d h vl view_mode0 rv3d =
     (let view_rot = quat_mul h (view_rotation rv3d) 10000000;
          view_mode = match_vlist h view_rot vl view_mode0;
          rv3d1 = (if view_mode \<in> {''TOP'', ''FRONT'', ''RIGHT'', ''BOTTOM'', ''BACK'', ''LEFT''}
                   then rv3d\<lparr>view_distance := default_distance\<rparr> else rv3d);
          rv3d2 = (if view_mode = ''none''
                   then rv3d1\<lparr>view_matrix := default_view_matrix,
                              view_distance := default_distance + 3\<rparr>
                   else rv3d1)
      in (''none'', rv3d2))"

text \<open>\<open>for area in bpy.context.screen.areas\<close>, with \<open>view_mode\<close> carried through the loop.\<close>

fun reset_areas ::
  "mathutils \<Rightarrow> (quaternion \<times> string) list \<Rightarrow> string \<Rightarrow> area list \<Rightarrow> string \<times> area list" where
  "reset_areas h vl view_mode [] = (view_mode, [])"
| "reset_areas h vl view_mode (a # rest) =
     (if atype a = ''VIEW_3D'' then
        (case region_3d a of
           None \<Rightarrow>
             (case reset_areas h vl view_mode rest of (vm', rest') \<Rightarrow> (vm', a # rest'))
         | Some rv3d \<Rightarrow>
             (case reset_rv3d h vl view_mode rv3d of (vm1, rv3d') \<Rightarrow>
                (case reset_areas h vl vm1 rest of (vm', rest') \<Rightarrow>
                   (vm', a\<lparr>region_3d := Some rv3d'\<rparr> # rest'))))
      else (case reset_areas h vl view_mode rest of (vm', rest') \<Rightarrow> (vm', a # rest')))"

text \<open>\<open>PDT_OT_Reset3DView.execute\<close>, for a lookup table \<open>vl\<close>; the handler's table is \<open>vlist\<close>.\<close>

definition Reset3DView_with ::
  "mathutils \<Rightarrow> (quaternion \<times> string) list \<Rightarrow> bcontext \<Rightarrow> (error + status) \<times> bcontext" where
  "Reset3DView_with h vl c =
     (let view_mode = ''none''
      in case reset_areas h vl view_mode (screen_areas c) of
           (vm', areas') \<Rightarrow> (Inr FINISHED, c\<lparr>screen_areas := areas'\<rparr>))"

definition PDT_OT_Reset3DView_execute :: "mathutils \<Rightarrow> bcontext \<Rightarrow> (error + status) \<times> bcontext" where
  "PDT_OT_Reset3DView_execute h c = Reset3DView_with h vlist c"

section \<open>Derived views of the reset loop, and concrete screens\<close>

text \<open>
  What one pass of the loop body does to one area when \<open>view_mode\<close> is \<open>none\<close> on entry,
  which it is on every pass (\<open>reset_areas_map\<close> below).
\<close>

definition reset_area :: "mathutils \<Rightarrow> (quaternion \<times> string) list \<Rightarrow> area \<Rightarrow> area" where
  "reset_area h vl a =
     (if atype a = ''VIEW_3D'' then
        (case region_3d a of None \<Rightarrow> a
         | Some rv3d \<Rightarrow> a\<lparr>region_3d := Some (snd (reset_rv3d h vl ''none'' rv3d))\<rparr>)
      else a)"

text \<open>
  A comparison separates the table when no quaternion compares equal to two different
  entries. Equality does, and so does a comparison that allows a difference of 1 in every
  component (\<open>tolerant_host_separates\<close> below), the entries being millions apart.
\<close>

definition separates_vlist :: "mathutils \<Rightarrow> bool" where
  "separates_vlist h =
     (\<forall>u. \<forall>v \<in> fst ` set vlist. \<forall>v' \<in> fst ` set vlist.
        quat_eq h u v \<and> quat_eq h u v' \<longrightarrow> v = v')"

text \<open>
  Two hosts for closed examples. Both multiply every component exactly. The first compares
  with equality. The second allows a difference of up to 1 in every component, as a
  comparison up to the last place of single precision does for numbers between \<open>2 ^ 23\<close>
  and \<open>2 ^ 24\<close>; under it the front view \<open>rv3d_front\<close> below is FRONT, as it is in the
  host, where the rounded product is 7071067.5.
\<close>

definition qscale :: "quaternion \<Rightarrow> real \<Rightarrow> quaternion" where
  "qscale q k = (case q of (w, x, y, z) \<Rightarrow> (w * k, x * k, y * k, z * k))"

definition exact_host :: mathutils where
  "exact_host = \<lparr>quat_mul = qscale, quat_eq = (=)\<rparr>"

definition near :: "quaternion \<Rightarrow> quaternion \<Rightarrow> bool" where
  "near a b =
     (case a of (aw, ax, ay, az) \<Rightarrow> case b of (bw, bx, by, bz) \<Rightarrow>
        \<bar>aw - bw\<bar> \<le> 1 \<and> \<bar>ax - bx\<bar> \<le> 1 \<and> \<bar>ay - by\<bar> \<le> 1 \<and> \<bar>az - bz\<bar> \<le> 1)"

definition tolerant_host :: mathutils where
  "tolerant_host = \<lparr>quat_mul = qscale, quat_eq = near\<rparr>"

text \<open>
  A conversion to put in place of the parameter \<open>euler_to_quaternion\<close> in closed
  examples; it keeps the three angles it is given visible.
\<close>

definition angles_as_quaternion :: "real \<Rightarrow> real \<Rightarrow> real \<Rightarrow> quaternion" where
  "angles_as_quaternion roll pitch yaw = (0, roll, pitch, yaw)"

definition identity_matrix :: matrix4 where
  "identity_matrix = ((1, 0, 0, 0), (0, 1, 0, 0), (0, 0, 1, 0), (0, 0, 0, 1))"

text \<open>
  A region looking from the front, with the single-precision value of the square root of
  one half, 11863283 / 2 ^ 24 = 0.707106769084930419921875, in its orientation; and a
  tilted one.
\<close>

definition rv3d_front :: region3d where
  "rv3d_front =
     \<lparr>view_rotation = (11863283 / 16777216, 11863283 / 16777216, 0, 0),
      view_matrix = identity_matrix, view_distance = 5\<rparr>"

definition rv3d_tilted :: region3d where
  "rv3d_tilted =
     \<lparr>view_rotation = (0.5, 0.5, 0.5, -0.5), view_matrix = identity_matrix,
      view_distance = 7\<rparr>"

definition pg_sample :: pdt_pg where
  "pg_sample = \<lparr>rotation_coords = (90, 0, 180), vrotangle = 45\<rparr>"

text \<open>A screen with two 3D views among other areas.\<close>

definition screen_two_views :: bcontext where
  "screen_two_views =
     \<lparr>scene_pdt_pg = pg_sample,
      screen_areas =
        [\<lparr>atype = ''PROPERTIES'', region_3d = None\<rparr>,
         \<lparr>atype = ''VIEW_3D'', region_3d = Some rv3d_front\<rparr>,
         \<lparr>atype = ''OUTLINER'', region_3d = None\<rparr>,
         \<lparr>atype = ''VIEW_3D'', region_3d = Some rv3d_tilted\<rparr>],
      ops = []\<rparr>"

text \<open>A screen with no 3D view.\<close>

definition screen_no_view :: bcontext where
  "screen_no_view =
     \<lparr>scene_pdt_pg = pg_sample,
      screen_areas =
        [\<lparr>atype = ''PROPERTIES'', region_3d = None\<rparr>,
         \<lparr>atype = ''OUTLINER'', region_3d = None\<rparr>],
      ops = []\<rparr>"

text \<open>A screen whose first 3D view has no \<open>region_3d\<close>; the second has one.\<close>

definition screen_no_region :: bcontext where
  "screen_no_region =
     \<lparr>scene_pdt_pg = pg_sample,
      screen_areas =
        [\<lparr>atype = ''VIEW_3D'', region_3d = None\<rparr>,
         \<lparr>atype = ''VIEW_3D'', region_3d = Some rv3d_tilted\<rparr>],
      ops = []\<rparr>"

text \<open>A screen whose only area is a 3D view with no \<open>region_3d\<close>.\<close>

definition screen_bare_view :: bcontext where
  "screen_bare_view =
     \<lparr>scene_pdt_pg = pg_sample,
      screen_areas = [\<lparr>atype = ''VIEW_3D'', region_3d = None\<rparr>],
      ops = []\<rparr>"

section \<open>Facts about the list of 3D views, the loop and the table\<close>

lemma filter_upt_first:
  assumes "i < n" "P i" "\<forall>j<i. \<not> P j"
  shows "filter P [0..<n] = i # filter P [Suc i..<n]"
proof -
  have "[0..<n] = [0..<i] @ i # [Suc i..<n]"
    using assms(1) by (metis less_imp_le_nat upt_add_eq_append upt_conv_Cons zero_le le_add_diff_inverse)
  moreover have "filter P [0..<i] = []"
    using assms(3) by (simp add: filter_empty_conv)
  ultimately show ?thesis using assms(2) by simp
qed

lemma view3d_areas_first:
  assumes "i < length (screen_areas c)" "atype (screen_areas c ! i) = ''VIEW_3D''"
    "\<forall>j<i. atype (screen_areas c ! j) \<noteq> ''VIEW_3D''"
  shows "length (view3d_areas c) > 0 \<and> view3d_areas c ! 0 = i"
  unfolding view3d_areas_def
  using filter_upt_first [of i "length (screen_areas c)" "\<lambda>i. atype (screen_areas c ! i) = ''VIEW_3D''"] assms
  by simp

lemma view3d_areas_empty:
  "(view3d_areas c = []) = (\<forall>a \<in> set (screen_areas c). atype a \<noteq> ''VIEW_3D'')"
proof
  assume e: "view3d_areas c = []"
  show "\<forall>a \<in> set (screen_areas c). atype a \<noteq> ''VIEW_3D''"
  proof
    fix a assume "a \<in> set (screen_areas c)"
    then obtain i where i: "i < length (screen_areas c)" "screen_areas c ! i = a"
      by (auto simp: in_set_conv_nth)
    from e have "\<not> atype (screen_areas c ! i) = ''VIEW_3D''"
      using i(1) unfolding view3d_areas_def filter_empty_conv by simp
    then show "atype a \<noteq> ''VIEW_3D''" using i(2) by simp
  qed
next
  assume "\<forall>a \<in> set (screen_areas c). atype a \<noteq> ''VIEW_3D''"
  then show "view3d_areas c = []"
    unfolding view3d_areas_def filter_empty_conv by simp
qed

lemma view3d_areas_nonempty:
  "(\<exists>a \<in> set (screen_areas c). atype a = ''VIEW_3D'') \<Longrightarrow> length (view3d_areas c) > 0"
  using view3d_areas_empty [of c] by auto

lemma reset_rv3d_fst: "fst (reset_rv3d h vl vm0 r) = ''none''"
  by (simp add: reset_rv3d_def Let_def)

lemma reset_areas_map:
  "reset_areas h vl ''none'' as = (''none'', map (reset_area h vl) as)"
proof (induction as)
  case Nil
  show ?case by simp
next
  case (Cons a as)
  show ?case
  proof (cases "atype a = ''VIEW_3D''")
    case False
    then show ?thesis using Cons.IH by (simp add: reset_area_def)
  next
    case True
    show ?thesis
    proof (cases "region_3d a")
      case None
      then show ?thesis using True Cons.IH by (simp add: reset_area_def)
    next
      case (Some r)
      obtain r' where r': "reset_rv3d h vl ''none'' r = (''none'', r')"
        using reset_rv3d_fst [of h vl "''none''" r] by (cases "reset_rv3d h vl ''none'' r") simp
      show ?thesis using True Some r' Cons.IH by (simp add: reset_area_def)
    qed
  qed
qed

lemma reset_execute_areas:
  "PDT_OT_Reset3DView_execute h c =
     (Inr FINISHED, c\<lparr>screen_areas := map (reset_area h vlist) (screen_areas c)\<rparr>)"
  by (simp add: PDT_OT_Reset3DView_execute_def Reset3DView_with_def reset_areas_map)

text \<open>The loop over the table: no match keeps \<open>view_mode\<close>, a match gives the name of a matching entry.\<close>

lemma match_vlist_no_match:
  "\<forall>p \<in> set vl. \<not> quat_eq h q (fst p) \<Longrightarrow> match_vlist h q vl vm0 = vm0"
  by (induction vl arbitrary: vm0) auto

lemma match_vlist_some_match:
  "\<exists>p \<in> set vl. quat_eq h q (fst p) \<Longrightarrow>
   match_vlist h q vl vm0 \<in> snd ` {p \<in> set vl. quat_eq h q (fst p)}"
proof (induction vl arbitrary: vm0)
  case Nil
  then show ?case by simp
next
  case (Cons p vl)
  obtain v vm where p: "p = (v, vm)" by (cases p)
  show ?case
  proof (cases "\<exists>p \<in> set vl. quat_eq h q (fst p)")
    case True
    from Cons.IH [OF True, of "if quat_eq h q v then vm else vm0"]
    obtain p' where p': "p' \<in> set vl" "quat_eq h q (fst p')"
      "match_vlist h q vl (if quat_eq h q v then vm else vm0) = snd p'"
      by auto
    have "match_vlist h q (p # vl) vm0 = snd p'"
      using p p'(3) by simp
    moreover have "p' \<in> {x \<in> set (p # vl). quat_eq h q (fst x)}"
      using p'(1,2) by simp
    ultimately show ?thesis by (rule image_eqI)
  next
    case False
    then have n: "\<forall>p \<in> set vl. \<not> quat_eq h q (fst p)" by blast
    with Cons.prems p have m: "quat_eq h q v" by auto
    show ?thesis
      using match_vlist_no_match [OF n, of vm] m p by force
  qed
qed

lemma vlist_distinct: "distinct (map fst vlist)"
  by (simp add: vlist_def)

lemma vlist_keys:
  "fst ` set vlist =
     {(10000000, 0, 0, 0), (7071067.5, 7071067.5, 0, 0), (5000000, 5000000, 5000000, 5000000),
      (0, 10000000, 0, 0), (0, 0, 7071067.5, 7071067.5), (5000000, 5000000, -5000000, -5000000)}"
  by (simp add: vlist_def)

lemma vlist_names:
  "snd ` set vlist = {''TOP'', ''FRONT'', ''RIGHT'', ''BOTTOM'', ''BACK'', ''LEFT''}"
  by (simp add: vlist_def)

lemma reset_rv3d_canonical:
  assumes "v \<in> fst ` set vlist" and "quat_eq h (quat_mul h (view_rotation rv3d) 10000000) v"
  shows "reset_rv3d h vlist ''none'' rv3d = (''none'', rv3d\<lparr>view_distance := 18\<rparr>)"
proof -
  let ?q = "quat_mul h (view_rotation rv3d) 10000000"
  have "\<exists>p \<in> set vlist. quat_eq h ?q (fst p)"
    using assms by auto
  from match_vlist_some_match [OF this, of "''none''"]
  have "match_vlist h ?q vlist ''none'' \<in> snd ` set vlist" by auto
  then have m: "match_vlist h ?q vlist ''none'' \<in> {''TOP'', ''FRONT'', ''RIGHT'', ''BOTTOM'', ''BACK'', ''LEFT''}"
    unfolding vlist_names .
  then have "match_vlist h ?q vlist ''none'' \<noteq> ''none''" by auto
  with m show ?thesis
    by (simp add: reset_rv3d_def Let_def default_distance_def)
qed

lemma reset_rv3d_other:
  assumes "\<forall>v \<in> fst ` set vlist. \<not> quat_eq h (quat_mul h (view_rotation rv3d) 10000000) v"
  shows "reset_rv3d h vlist ''none'' rv3d =
    (''none'', rv3d\<lparr>view_matrix := default_view_matrix, view_distance := 21\<rparr>)"
proof -
  have "\<forall>p \<in> set vlist. \<not> quat_eq h (quat_mul h (view_rotation rv3d) 10000000) (fst p)"
    using assms by auto
  from match_vlist_no_match [OF this, of "''none''"] show ?thesis
    by (simp add: reset_rv3d_def Let_def default_distance_def)
qed

lemma reset_rv3d_cases:
  "snd (reset_rv3d h vlist ''none'' r) =
     (if \<exists>v \<in> fst ` set vlist. quat_eq h (quat_mul h (view_rotation r) 10000000) v
      then r\<lparr>view_distance := 18\<rparr>
      else r\<lparr>view_matrix := default_view_matrix, view_distance := 21\<rparr>)"
proof (cases "\<exists>v \<in> fst ` set vlist. quat_eq h (quat_mul h (view_rotation r) 10000000) v")
  case True
  then obtain v where "v \<in> fst ` set vlist" "quat_eq h (quat_mul h (view_rotation r) 10000000) v"
    by blast
  from reset_rv3d_canonical [OF this] True show ?thesis by simp
next
  case False
  then have "\<forall>v \<in> fst ` set vlist. \<not> quat_eq h (quat_mul h (view_rotation r) 10000000) v"
    by blast
  from reset_rv3d_other [OF this] False show ?thesis by simp
qed

text \<open>With a comparison that separates the table, the matching entries are at most one.\<close>

lemma separated_matches:
  assumes "separates_vlist h"
    and "p \<in> set vlist" "quat_eq h q (fst p)"
    and "p' \<in> set vlist" "quat_eq h q (fst p')"
  shows "p = p'"
proof -
  have "fst p = fst p'"
    using assms unfolding separates_vlist_def by (meson imageI)
  moreover obtain v vm where p: "p = (v, vm)" by (cases p)
  moreover obtain v' vm' where p': "p' = (v', vm')" by (cases p')
  ultimately show ?thesis
    using eq_key_imp_eq_value [OF vlist_distinct, of v vm vm'] assms(2,4) by simp
qed

lemma separated_count:
  assumes "separates_vlist h"
  shows "length (filter (\<lambda>(v, vm). quat_eq h q v) vlist) \<le> 1"
proof -
  let ?A = "{p. quat_eq h q (fst p)} \<inter> set vlist"
  have d: "distinct vlist"
    using vlist_distinct by (simp add: distinct_map)
  have "\<forall>a \<in> ?A. \<forall>b \<in> ?A. a = b"
    using separated_matches [OF assms] by blast
  moreover have "finite ?A" by simp
  ultimately have "card ?A \<le> Suc 0"
    by (simp only: card_le_Suc0_iff_eq)
  then have l: "length (filter (\<lambda>p. quat_eq h q (fst p)) vlist) \<le> 1"
    using distinct_length_filter [OF d, of "\<lambda>p. quat_eq h q (fst p)"] by simp
  have e: "(\<lambda>(v, vm). quat_eq h q v) = (\<lambda>p. quat_eq h q (fst p))"
    by (simp add: fun_eq_iff)
  show ?thesis unfolding e by (rule l)
qed

lemma match_vlist_permuted:
  assumes "separates_vlist h" and "mset vl = mset vlist"
  shows "match_vlist h q vl view_mode = match_vlist h q vlist view_mode"
proof -
  have s: "set vl = set vlist"
    using assms(2) by (rule mset_eq_setD)
  show ?thesis
  proof (cases "\<exists>p \<in> set vlist. quat_eq h q (fst p)")
    case True
    from match_vlist_some_match [OF True, of view_mode]
    obtain p where p: "p \<in> set vlist" "quat_eq h q (fst p)" "match_vlist h q vlist view_mode = snd p"
      by auto
    from True s have "\<exists>p \<in> set vl. quat_eq h q (fst p)" by simp
    from match_vlist_some_match [OF this, of view_mode] s
    obtain p' where p': "p' \<in> set vlist" "quat_eq h q (fst p')" "match_vlist h q vl view_mode = snd p'"
      by auto
    from separated_matches [OF assms(1) p(1,2) p'(1,2)] p(3) p'(3) show ?thesis by simp
  next
    case False
    then have n: "\<forall>p \<in> set vlist. \<not> quat_eq h q (fst p)" by blast
    then have n': "\<forall>p \<in> set vl. \<not> quat_eq h q (fst p)" using s by simp
    show ?thesis
      by (simp add: match_vlist_no_match [OF n] match_vlist_no_match [OF n'])
  qed
qed

lemma reset_areas_cong:
  assumes "\<And>vm r. reset_rv3d h vl vm r = reset_rv3d h vl' vm r"
  shows "reset_areas h vl view_mode as = reset_areas h vl' view_mode as"
  by (induction as arbitrary: view_mode) (simp_all add: assms split: option.splits prod.splits)

lemma reset_permuted:
  assumes "separates_vlist h" and "mset vl = mset vlist"
  shows "Reset3DView_with h vl c = PDT_OT_Reset3DView_execute h c"
proof -
  have "reset_rv3d h vl vm r = reset_rv3d h vlist vm r" for vm r
    by (simp add: reset_rv3d_def match_vlist_permuted [OF assms])
  then have "reset_areas h vl ''none'' (screen_areas c) = reset_areas h vlist ''none'' (screen_areas c)"
    by (rule reset_areas_cong)
  then show ?thesis
    by (simp add: PDT_OT_Reset3DView_execute_def Reset3DView_with_def)
qed

lemma exact_host_separates: "separates_vlist exact_host"
  by (auto simp add: separates_vlist_def exact_host_def)

lemma within_one_twice:
  "\<bar>w - a\<bar> \<le> 1 \<Longrightarrow> \<bar>w - a'\<bar> \<le> 1 \<Longrightarrow> \<bar>a - a'\<bar> \<le> (2::real)"
  by linarith

lemma near_twice:
  assumes "near u (a, b, c, d)" and "near u (a', b', c', d')"
  shows "\<bar>a - a'\<bar> \<le> 2 \<and> \<bar>b - b'\<bar> \<le> 2 \<and> \<bar>c - c'\<bar> \<le> 2 \<and> \<bar>d - d'\<bar> \<le> 2"
proof -
  obtain w x y z where u: "u = (w, x, y, z)" by (cases u)
  from assms have h: "\<bar>w - a\<bar> \<le> 1" "\<bar>w - a'\<bar> \<le> 1" "\<bar>x - b\<bar> \<le> 1" "\<bar>x - b'\<bar> \<le> 1"
    "\<bar>y - c\<bar> \<le> 1" "\<bar>y - c'\<bar> \<le> 1" "\<bar>z - d\<bar> \<le> 1" "\<bar>z - d'\<bar> \<le> 1"
    by (simp_all add: near_def u)
  show ?thesis
    using within_one_twice [OF h(1,2)] within_one_twice [OF h(3,4)]
      within_one_twice [OF h(5,6)] within_one_twice [OF h(7,8)] by (intro conjI)
qed

lemma vlist_keys_apart:
  assumes "(a, b, c, d) \<in> fst ` set vlist" and "(a', b', c', d') \<in> fst ` set vlist"
    and "\<bar>a - a'\<bar> \<le> 2 \<and> \<bar>b - b'\<bar> \<le> 2 \<and> \<bar>c - c'\<bar> \<le> 2 \<and> \<bar>d - d'\<bar> \<le> 2"
  shows "(a, b, c, d) = (a', b', c', d')"
  using assms unfolding vlist_keys by auto

lemma tolerant_host_separates: "separates_vlist tolerant_host"
  unfolding separates_vlist_def
proof (intro allI ballI impI)
  fix u v v'
  assume v: "v \<in> fst ` set vlist" and v': "v' \<in> fst ` set vlist"
    and n: "quat_eq tolerant_host u v \<and> quat_eq tolerant_host u v'"
  obtain a b c d where e: "v = (a, b, c, d)" by (cases v)
  obtain a' b' c' d' where e': "v' = (a', b', c', d')" by (cases v')
  from n have "near u (a, b, c, d)" and "near u (a', b', c', d')"
    by (simp_all add: tolerant_host_def e e')
  from near_twice [OF this] v v' show "v = v'"
    unfolding e e' by (rule vlist_keys_apart [rotated 2])
qed

lemma filter_key_at_most_one:
  "distinct (map fst vl) \<Longrightarrow> length (filter (\<lambda>(v, vm). q = v) vl) \<le> 1"
proof (induction vl)
  case Nil
  show ?case by simp
next
  case (Cons p vl)
  obtain v vm where p: "p = (v, vm)" by (cases p)
  show ?case
  proof (cases "q = v")
    case True
    then have "q \<notin> fst ` set vl" using Cons.prems p by simp
    then have "filter (\<lambda>(v, vm). q = v) vl = []"
      by (force simp: filter_empty_conv)
    then show ?thesis using p True by simp
  next
    case False
    then show ?thesis using Cons p by simp
  qed
qed

text \<open>The assignment through \<open>areas[0]\<close>.\<close>

lemma set_view_rotation_pg: "scene_pdt_pg (snd (set_view_rotation i q c)) = scene_pdt_pg c"
  by (simp add: set_view_rotation_def split: option.splits)

lemma set_view_rotation_frame:
  assumes "i < length (screen_areas c)"
  shows "length (screen_areas (snd (set_view_rotation i q c))) = length (screen_areas c) \<and>
         (k \<noteq> i \<longrightarrow> screen_areas (snd (set_view_rotation i q c)) ! k = screen_areas c ! k) \<and>
         atype (screen_areas (snd (set_view_rotation i q c)) ! i) = atype (screen_areas c ! i) \<and>
         map_option view_matrix (region_3d (screen_areas (snd (set_view_rotation i q c)) ! i)) =
           map_option view_matrix (region_3d (screen_areas c ! i)) \<and>
         map_option view_distance (region_3d (screen_areas (snd (set_view_rotation i q c)) ! i)) =
           map_option view_distance (region_3d (screen_areas c ! i))"
  using assms by (cases "region_3d (screen_areas c ! i)") (simp_all add: set_view_rotation_def)

lemma viewrot_is_set_view_rotation:
  assumes "i < length (screen_areas c)"
    and "atype (screen_areas c ! i) = ''VIEW_3D''"
    and "\<forall>j<i. atype (screen_areas c ! j) \<noteq> ''VIEW_3D''"
  shows "PDT_OT_ViewRot_execute euler_to_quaternion c =
           set_view_rotation i
             (case rotation_coords (scene_pdt_pg c) of
                (x, y, z) \<Rightarrow> euler_to_quaternion (x * pi / 180) (y * pi / 180) (z * pi / 180)) c"
  using view3d_areas_first [OF assms]
  by (simp add: PDT_OT_ViewRot_execute_def Let_def split: prod.splits)

lemma viso_is_set_view_rotation:
  assumes "i < length (screen_areas c)"
    and "atype (screen_areas c ! i) = ''VIEW_3D''"
    and "\<forall>j<i. atype (screen_areas c ! j) \<noteq> ''VIEW_3D''"
  shows "PDT_OT_viso_execute c = set_view_rotation i (0.8205, 0.4247, -0.1759, -0.3399) c"
  using view3d_areas_first [OF assms]
  by (simp add: PDT_OT_viso_execute_def Let_def)

text \<open>What the two handlers that assign an orientation do when the first 3D view has a region.\<close>

lemma viewrot_sets_first_region_rotation:
  assumes "i < length (screen_areas c)"
    and "atype (screen_areas c ! i) = ''VIEW_3D''"
    and "\<forall>j<i. atype (screen_areas c ! j) \<noteq> ''VIEW_3D''"
    and "region_3d (screen_areas c ! i) = Some rv3d"
    and "rotation_coords (scene_pdt_pg c) = (x, y, z)"
  shows "PDT_OT_ViewRot_execute euler_to_quaternion c =
           (Inr FINISHED,
            c\<lparr>screen_areas := (screen_areas c)
               [i := (screen_areas c ! i)\<lparr>region_3d := Some (rv3d
                  \<lparr>view_rotation :=
                     euler_to_quaternion (x * pi / 180) (y * pi / 180) (z * pi / 180)\<rparr>)\<rparr>]\<rparr>)"
  using view3d_areas_first [OF assms(1-3)] assms(4,5)
  by (simp add: PDT_OT_ViewRot_execute_def set_view_rotation_def Let_def)

lemma viso_sets_first_region_rotation:
  assumes "i < length (screen_areas c)"
    and "atype (screen_areas c ! i) = ''VIEW_3D''"
    and "\<forall>j<i. atype (screen_areas c ! j) \<noteq> ''VIEW_3D''"
    and "region_3d (screen_areas c ! i) = Some rv3d"
  shows "PDT_OT_viso_execute c =
           (Inr FINISHED,
            c\<lparr>screen_areas := (screen_areas c)
               [i := (screen_areas c ! i)\<lparr>region_3d := Some (rv3d
                  \<lparr>view_rotation := (0.8205, 0.4247, -0.1759, -0.3399)\<rparr>)\<rparr>]\<rparr>)"
  using view3d_areas_first [OF assms(1-3)] assms(4)
  by (simp add: PDT_OT_viso_execute_def set_view_rotation_def Let_def)

text \<open>
  With \<open>i\<close> the position of the first VIEW_3D area: the two handlers leave every other
  area \<open>k\<close> as it was and of area \<open>i\<close> the type, view matrix and zoom distance, whether
  they return or raise; the reset handler resets the region of every VIEW_3D area.
\<close>

lemma rotate_iso_frame_reset_every_view:
  assumes "i < length (screen_areas c)"
    and "atype (screen_areas c ! i) = ''VIEW_3D''"
    and "\<forall>j<i. atype (screen_areas c ! j) \<noteq> ''VIEW_3D''"
    and "k < length (screen_areas c)"
  shows "(k \<noteq> i \<longrightarrow>
            screen_areas (snd (PDT_OT_ViewRot_execute euler_to_quaternion c)) ! k = screen_areas c ! k \<and>
            screen_areas (snd (PDT_OT_viso_execute c)) ! k = screen_areas c ! k) \<and>
         map_option view_matrix
             (region_3d (screen_areas (snd (PDT_OT_ViewRot_execute euler_to_quaternion c)) ! i)) =
           map_option view_matrix (region_3d (screen_areas c ! i)) \<and>
         map_option view_distance
             (region_3d (screen_areas (snd (PDT_OT_ViewRot_execute euler_to_quaternion c)) ! i)) =
           map_option view_distance (region_3d (screen_areas c ! i)) \<and>
         map_option view_matrix (region_3d (screen_areas (snd (PDT_OT_viso_execute c)) ! i)) =
           map_option view_matrix (region_3d (screen_areas c ! i)) \<and>
         map_option view_distance (region_3d (screen_areas (snd (PDT_OT_viso_execute c)) ! i)) =
           map_option view_distance (region_3d (screen_areas c ! i)) \<and>
         atype (screen_areas (snd (PDT_OT_ViewRot_execute euler_to_quaternion c)) ! i) = ''VIEW_3D'' \<and>
         atype (screen_areas (snd (PDT_OT_viso_execute c)) ! i) = ''VIEW_3D'' \<and>
         length (screen_areas (snd (PDT_OT_ViewRot_execute euler_to_quaternion c))) =
           length (screen_areas c) \<and>
         length (screen_areas (snd (PDT_OT_viso_execute c))) = length (screen_areas c) \<and>
         length (screen_areas (snd (PDT_OT_Reset3DView_execute h c))) = length (screen_areas c) \<and>
         (atype (screen_areas c ! k) = ''VIEW_3D'' \<longrightarrow>
            region_3d (screen_areas (snd (PDT_OT_Reset3DView_execute h c)) ! k) =
              map_option
                (\<lambda>r. if \<exists>v \<in> fst ` set vlist. quat_eq h (quat_mul h (view_rotation r) 10000000) v
                      then r\<lparr>view_distance := 18\<rparr>
                      else r\<lparr>view_matrix := default_view_matrix, view_distance := 21\<rparr>)
                (region_3d (screen_areas c ! k)))"
proof -
  note q1 = viewrot_is_set_view_rotation [OF assms(1-3), of euler_to_quaternion]
  note q2 = viso_is_set_view_rotation [OF assms(1-3)]
  have r: "atype (screen_areas c ! k) = ''VIEW_3D'' \<longrightarrow>
            region_3d (screen_areas (snd (PDT_OT_Reset3DView_execute h c)) ! k) =
              map_option
                (\<lambda>r. if \<exists>v \<in> fst ` set vlist. quat_eq h (quat_mul h (view_rotation r) 10000000) v
                      then r\<lparr>view_distance := 18\<rparr>
                      else r\<lparr>view_matrix := default_view_matrix, view_distance := 21\<rparr>)
                (region_3d (screen_areas c ! k))"
    using assms(4)
    by (cases "region_3d (screen_areas c ! k)")
      (simp_all add: reset_execute_areas reset_area_def reset_rv3d_cases)
  have l: "length (screen_areas (snd (PDT_OT_Reset3DView_execute h c))) = length (screen_areas c)"
    by (simp add: reset_execute_areas)
  show ?thesis
    using set_view_rotation_frame [OF assms(1), of _ k] r l assms(2)
    unfolding q1 q2 by simp
qed

lemma reset_finished: "fst (PDT_OT_Reset3DView_execute h c) = Inr {''FINISHED''}"
  by (simp add: reset_execute_areas FINISHED_def)

section \<open>The claims\<close>

text \<open>
  C1. For every VIEW_3D area whose orientation, multiplied by 10,000,000, compares equal
  to one of the six constants of the table, the reset handler leaves the area as it was
  except for the zoom distance of its region, which becomes 18: orientation and view
  matrix are the ones before. The scene inputs and the host calls are untouched. Product
  and comparison are the host's, whatever they are.
\<close>

theorem reset_canonical_only_distance:
  assumes "i < length (screen_areas c)"
    and "atype (screen_areas c ! i) = ''VIEW_3D''"
    and "region_3d (screen_areas c ! i) = Some rv3d"
    and "v \<in> {(10000000, 0, 0, 0), (7071067.5, 7071067.5, 0, 0),
               (5000000, 5000000, 5000000, 5000000), (0, 10000000, 0, 0),
               (0, 0, 7071067.5, 7071067.5), (5000000, 5000000, -5000000, -5000000)}"
    and "quat_eq h (quat_mul h (view_rotation rv3d) 10000000) v"
  shows "screen_areas (snd (PDT_OT_Reset3DView_execute h c)) ! i =
           (screen_areas c ! i)\<lparr>region_3d := Some (rv3d\<lparr>view_distance := 18\<rparr>)\<rparr> \<and>
         scene_pdt_pg (snd (PDT_OT_Reset3DView_execute h c)) = scene_pdt_pg c \<and>
         ops (snd (PDT_OT_Reset3DView_execute h c)) = ops c"
proof -
  from assms(4) have "v \<in> fst ` set vlist"
    unfolding vlist_keys .
  from reset_rv3d_canonical [OF this assms(5)] assms(1-3) show ?thesis
    by (simp add: reset_execute_areas reset_area_def)
qed

theorem reset_canonical_only_distance_witness:
  "quat_mul tolerant_host (view_rotation rv3d_front) 10000000 =
     (7071067.69084930419921875, 7071067.69084930419921875, 0, 0) \<and>
   quat_eq tolerant_host (quat_mul tolerant_host (view_rotation rv3d_front) 10000000)
     (7071067.5, 7071067.5, 0, 0) \<and>
   screen_areas (snd (PDT_OT_Reset3DView_execute tolerant_host screen_two_views)) ! 1 =
     \<lparr>atype = ''VIEW_3D'',
      region_3d = Some \<lparr>view_rotation = (11863283 / 16777216, 11863283 / 16777216, 0, 0),
                         view_matrix = identity_matrix, view_distance = 18\<rparr>\<rparr>"
  using reset_canonical_only_distance
    [of 1 screen_two_views rv3d_front "(7071067.5, 7071067.5, 0, 0)" tolerant_host]
  by (simp add: screen_two_views_def rv3d_front_def tolerant_host_def qscale_def near_def)



text \<open>
  C3 does not hold of the code. On a screen with two VIEW_3D areas of which the first has
  no \<open>region_3d\<close>, the absolute-rotate handler raises AttributeError at the assignment
  through \<open>areas[0]\<close> and sets no orientation: the context is what it was, and the
  orientation of the second area is not the converted input. The reset handler tests
  \<open>rv3d is not None\<close> before it touches a region; this handler does not. Where the first
  VIEW_3D area has a region the orientation is set as claimed
  (\<open>viewrot_sets_first_region_rotation\<close>).
\<close>

theorem viewrot_raises_on_missing_region:
  "view3d_areas screen_no_region = [0, 1] \<and>
   PDT_OT_ViewRot_execute angles_as_quaternion screen_no_region = (Inl AttributeError, screen_no_region) \<and>
   view_rotation rv3d_tilted \<noteq> angles_as_quaternion (90 * pi / 180) (0 * pi / 180) (180 * pi / 180)"
  by (simp add: PDT_OT_ViewRot_execute_def set_view_rotation_def view3d_areas_def
      screen_no_region_def pg_sample_def angles_as_quaternion_def rv3d_tilted_def)

text \<open>
  C4. With a VIEW_3D area on the screen and delta angle \<open>d\<close>, each orbit handler calls
  the host's orbit operator once with angle \<open>d * pi / 180\<close> and its own direction
  (ORBITLEFT, ORBITRIGHT, ORBITUP, ORBITDOWN), and the roll handler calls the host's roll
  operator once with angle \<open>d * pi / 180\<close> and type ANGLE.
\<close>

theorem orbit_roll_call_host:
  assumes "\<exists>a \<in> set (screen_areas c). atype a = ''VIEW_3D''"
    and "vrotangle (scene_pdt_pg c) = d"
  shows "PDT_OT_vRotL_execute c =
           (Inr FINISHED, c\<lparr>ops := ops c @ [view_orbit (d * pi / 180) ''ORBITLEFT'']\<rparr>) \<and>
         PDT_OT_vRotR_execute c =
           (Inr FINISHED, c\<lparr>ops := ops c @ [view_orbit (d * pi / 180) ''ORBITRIGHT'']\<rparr>) \<and>
         PDT_OT_vRotU_execute c =
           (Inr FINISHED, c\<lparr>ops := ops c @ [view_orbit (d * pi / 180) ''ORBITUP'']\<rparr>) \<and>
         PDT_OT_vRotD_execute c =
           (Inr FINISHED, c\<lparr>ops := ops c @ [view_orbit (d * pi / 180) ''ORBITDOWN'']\<rparr>) \<and>
         PDT_OT_vRoll_execute c =
           (Inr FINISHED, c\<lparr>ops := ops c @ [view_roll (d * pi / 180) ''ANGLE'']\<rparr>)"
  using view3d_areas_nonempty [OF assms(1)] assms(2)
  by (simp add: PDT_OT_vRotL_execute_def PDT_OT_vRotR_execute_def PDT_OT_vRotU_execute_def
      PDT_OT_vRotD_execute_def PDT_OT_vRoll_execute_def Let_def)

theorem orbit_roll_call_host_witness:
  "ops (snd (PDT_OT_vRotL_execute screen_two_views)) = [view_orbit (pi / 4) ''ORBITLEFT''] \<and>
   ops (snd (PDT_OT_vRotR_execute screen_two_views)) = [view_orbit (pi / 4) ''ORBITRIGHT''] \<and>
   ops (snd (PDT_OT_vRotU_execute screen_two_views)) = [view_orbit (pi / 4) ''ORBITUP''] \<and>
   ops (snd (PDT_OT_vRotD_execute screen_two_views)) = [view_orbit (pi / 4) ''ORBITDOWN''] \<and>
   ops (snd (PDT_OT_vRoll_execute screen_two_views)) = [view_roll (pi / 4) ''ANGLE'']"
  using orbit_roll_call_host [of screen_two_views 45]
  by (simp add: screen_two_views_def pg_sample_def)

text \<open>
  C5 does not hold of the code. On the same screen the isometric handler raises
  AttributeError at the assignment through \<open>areas[0]\<close>, the first VIEW_3D area having no
  \<open>region_3d\<close>: the context is what it was, and the orientation of the second area is
  not the isometric quaternion. The reset handler tests \<open>rv3d is not None\<close>; this handler
  does not. Where the first VIEW_3D area has a region the quaternion is assigned as
  claimed (\<open>viso_sets_first_region_rotation\<close>).
\<close>

theorem viso_raises_on_missing_region:
  "view3d_areas screen_no_region = [0, 1] \<and>
   PDT_OT_viso_execute screen_no_region = (Inl AttributeError, screen_no_region) \<and>
   view_rotation rv3d_tilted \<noteq> (0.8205, 0.4247, -0.1759, -0.3399)"
  by (simp add: PDT_OT_viso_execute_def set_view_rotation_def view3d_areas_def
      screen_no_region_def rv3d_tilted_def)

text \<open>
  C6. With no VIEW_3D area on the screen, every handler returns FINISHED, raises nothing
  and leaves the whole context (scene inputs, areas, host calls) as it was.
\<close>

theorem no_view_no_effect:
  assumes "\<forall>a \<in> set (screen_areas c). atype a \<noteq> ''VIEW_3D''"
  shows "PDT_OT_ViewRot_execute euler_to_quaternion c = (Inr FINISHED, c) \<and>
         PDT_OT_vRotL_execute c = (Inr FINISHED, c) \<and>
         PDT_OT_vRotR_execute c = (Inr FINISHED, c) \<and>
         PDT_OT_vRotU_execute c = (Inr FINISHED, c) \<and>
         PDT_OT_vRotD_execute c = (Inr FINISHED, c) \<and>
         PDT_OT_vRoll_execute c = (Inr FINISHED, c) \<and>
         PDT_OT_viso_execute c = (Inr FINISHED, c) \<and>
         PDT_OT_Reset3DView_execute h c = (Inr FINISHED, c)"
proof -
  have e: "view3d_areas c = []"
    using assms by (simp add: view3d_areas_empty)
  have "map (reset_area h vlist) (screen_areas c) = screen_areas c"
    using assms by (simp add: reset_area_def map_idI)
  then have r: "PDT_OT_Reset3DView_execute h c = (Inr FINISHED, c)"
    by (simp add: reset_execute_areas)
  show ?thesis
    using e r
    by (simp add: PDT_OT_ViewRot_execute_def PDT_OT_vRotL_execute_def PDT_OT_vRotR_execute_def
        PDT_OT_vRotU_execute_def PDT_OT_vRotD_execute_def PDT_OT_vRoll_execute_def
        PDT_OT_viso_execute_def Let_def)
qed

theorem no_view_no_effect_witness:
  "PDT_OT_ViewRot_execute angles_as_quaternion screen_no_view = (Inr {''FINISHED''}, screen_no_view) \<and>
   PDT_OT_vRotL_execute screen_no_view = (Inr {''FINISHED''}, screen_no_view) \<and>
   PDT_OT_vRotR_execute screen_no_view = (Inr {''FINISHED''}, screen_no_view) \<and>
   PDT_OT_vRotU_execute screen_no_view = (Inr {''FINISHED''}, screen_no_view) \<and>
   PDT_OT_vRotD_execute screen_no_view = (Inr {''FINISHED''}, screen_no_view) \<and>
   PDT_OT_vRoll_execute screen_no_view = (Inr {''FINISHED''}, screen_no_view) \<and>
   PDT_OT_viso_execute screen_no_view = (Inr {''FINISHED''}, screen_no_view) \<and>
   PDT_OT_Reset3DView_execute exact_host screen_no_view = (Inr {''FINISHED''}, screen_no_view)"
  using no_view_no_effect [of screen_no_view angles_as_quaternion exact_host]
  by (simp add: screen_no_view_def FINISHED_def)

text \<open>
  C7 does not hold of the code: on a screen whose only area is a VIEW_3D area without a
  \<open>region_3d\<close>, the absolute-rotate and the isometric handler raise AttributeError and
  return no status. The reset handler tests \<open>rv3d is not None\<close> before it touches the
  region, and returns FINISHED on every context (\<open>reset_finished\<close>); these two handlers
  do not make the test.
\<close>

theorem rotate_iso_raise_without_region:
  "PDT_OT_ViewRot_execute angles_as_quaternion screen_bare_view = (Inl AttributeError, screen_bare_view) \<and>
   PDT_OT_viso_execute screen_bare_view = (Inl AttributeError, screen_bare_view)"
  by (simp add: PDT_OT_ViewRot_execute_def PDT_OT_viso_execute_def set_view_rotation_def
      view3d_areas_def screen_bare_view_def pg_sample_def)

text \<open>
  C8. No handler changes the scene inputs: \<open>rotation_coords\<close> and \<open>vrotangle\<close> of
  \<open>scene.pdt_pg\<close> are after every handler what they were before, on every context and
  also when the handler raises.
\<close>

theorem handlers_keep_scene_inputs:
  "scene_pdt_pg (snd (PDT_OT_ViewRot_execute euler_to_quaternion c)) = scene_pdt_pg c \<and>
   scene_pdt_pg (snd (PDT_OT_vRotL_execute c)) = scene_pdt_pg c \<and>
   scene_pdt_pg (snd (PDT_OT_vRotR_execute c)) = scene_pdt_pg c \<and>
   scene_pdt_pg (snd (PDT_OT_vRotU_execute c)) = scene_pdt_pg c \<and>
   scene_pdt_pg (snd (PDT_OT_vRotD_execute c)) = scene_pdt_pg c \<and>
   scene_pdt_pg (snd (PDT_OT_vRoll_execute c)) = scene_pdt_pg c \<and>
   scene_pdt_pg (snd (PDT_OT_viso_execute c)) = scene_pdt_pg c \<and>
   scene_pdt_pg (snd (PDT_OT_Reset3DView_execute h c)) = scene_pdt_pg c"
  by (simp add: PDT_OT_ViewRot_execute_def PDT_OT_vRotL_execute_def PDT_OT_vRotR_execute_def
        PDT_OT_vRotU_execute_def PDT_OT_vRotD_execute_def PDT_OT_vRoll_execute_def
        PDT_OT_viso_execute_def Let_def reset_execute_areas set_view_rotation_pg split: prod.splits)

text \<open>
  C9. Whatever the scaled orientation \<open>q\<close>, at most one entry of the table equals it, the
  six quaternions being pairwise distinct; so with the entries in any other order \<open>vl\<close>
  the loop over the table finds the same \<open>view_mode\<close> and the reset handler does the same.
  The same holds with every host comparison \<open>h\<close> under which no quaternion compares equal
  to two different entries.
\<close>

theorem vlist_single_match_any_order:
  "length (filter (\<lambda>(v, vm). q = v) vlist) \<le> 1 \<and>
   distinct (map fst vlist) \<and>
   (mset vl = mset vlist \<longrightarrow>
      match_vlist exact_host q vl view_mode = match_vlist exact_host q vlist view_mode \<and>
      Reset3DView_with exact_host vl c = PDT_OT_Reset3DView_execute exact_host c) \<and>
   (separates_vlist h \<longrightarrow>
      length (filter (\<lambda>(v, vm). quat_eq h q v) vlist) \<le> 1 \<and>
      (mset vl = mset vlist \<longrightarrow>
         match_vlist h q vl view_mode = match_vlist h q vlist view_mode \<and>
         Reset3DView_with h vl c = PDT_OT_Reset3DView_execute h c))"
  using filter_key_at_most_one [OF vlist_distinct, of q] vlist_distinct
    match_vlist_permuted [OF exact_host_separates, of vl q view_mode]
    reset_permuted [OF exact_host_separates, of vl c]
    separated_count [of h q] match_vlist_permuted [of h vl q view_mode] reset_permuted [of h vl c]
  by blast

theorem vlist_single_match_any_order_witness:
  "mset (rev vlist) = mset vlist \<and> separates_vlist tolerant_host \<and>
   match_vlist exact_host (7071067.5, 7071067.5, 0, 0) (rev vlist) ''none'' = ''FRONT'' \<and>
   match_vlist exact_host (7071067.5, 7071067.5, 0, 0) vlist ''none'' = ''FRONT'' \<and>
   Reset3DView_with exact_host (rev vlist) screen_two_views =
     PDT_OT_Reset3DView_execute exact_host screen_two_views \<and>
   match_vlist tolerant_host (7071068, 7071067, 0, 0) (rev vlist) ''none'' = ''FRONT'' \<and>
   match_vlist tolerant_host (7071068, 7071067, 0, 0) vlist ''none'' = ''FRONT'' \<and>
   Reset3DView_with tolerant_host (rev vlist) screen_two_views =
     PDT_OT_Reset3DView_execute tolerant_host screen_two_views"
  using vlist_single_match_any_order
      [of "(7071067.5, 7071067.5, 0, 0)" "rev vlist" "''none''" screen_two_views tolerant_host]
    vlist_single_match_any_order
      [of "(7071068, 7071067, 0, 0)" "rev vlist" "''none''" screen_two_views tolerant_host]
    tolerant_host_separates
  by (simp add: vlist_def exact_host_def tolerant_host_def near_def)

text \<open>
  C10 does not hold of the code. On a screen with two VIEW_3D areas of which the first
  has no \<open>region_3d\<close>, the absolute-rotate and the isometric handler raise AttributeError
  and change no orientation at all, that of the first VIEW_3D area included: the context
  after is the context before. The reset handler tests \<open>rv3d is not None\<close>; these two
  handlers do not. The rest of the claim holds (\<open>rotate_iso_frame_reset_every_view\<close>):
  the two handlers leave every area but the first VIEW_3D area as it was, and the reset
  handler resets every VIEW_3D area that has a region.
\<close>

theorem rotate_iso_change_nothing_on_missing_region:
  "view3d_areas screen_no_region = [0, 1] \<and>
   region_3d (screen_areas screen_no_region ! 0) = None \<and>
   fst (PDT_OT_ViewRot_execute angles_as_quaternion screen_no_region) = Inl AttributeError \<and>
   snd (PDT_OT_ViewRot_execute angles_as_quaternion screen_no_region) = screen_no_region \<and>
   fst (PDT_OT_viso_execute screen_no_region) = Inl AttributeError \<and>
   snd (PDT_OT_viso_execute screen_no_region) = screen_no_region"
  by (simp add: PDT_OT_ViewRot_execute_def PDT_OT_viso_execute_def set_view_rotation_def
      view3d_areas_def screen_no_region_def pg_sample_def)

end
